theory Spec2Isabelle
  imports
    Main
    "HOL-Library.Multiset"
    "HOL-Library.Option_ord"
    "HOL-Library.Product_Lexorder"
begin

section \<open>Data model\<close>

text \<open>
  The hotel audit tracker keeps four tables: users, properties, audits and audit items.
  A table is the list of its rows. A nullable column is an \<open>option\<close>, with \<open>None\<close> for
  SQL NULL and for Python's \<open>None\<close>. A \<open>datetime\<close> is a count of microseconds since the
  epoch; the current time (\<open>datetime.utcnow()\<close>) is an argument \<open>now\<close> of every operation
  that reads the clock. A JSON column (Python \<open>Dict\<close>) is an association list.
  \<open>created_at\<close> is filled when a row is inserted and is never NULL (the report endpoint
  calls \<open>isoformat\<close> on it unguarded). A lookup \<open>query(T).filter(T.id == k).first()\<close> is
  \<open>find\<close> on the table, and the flush of a changed row is \<open>UPDATE ... WHERE id = k\<close>: the
  assignments are applied to every row with that id.
\<close>

type_synonym datetime = int

type_synonym pydict = "(string \<times> string) list"

definition timedelta :: "int \<Rightarrow> int" where
  \<comment> \<open>\<open>timedelta(days=d)\<close>, in microseconds\<close>
  "timedelta days = days * 86400000000"

definition date :: "datetime \<Rightarrow> int" where
  \<comment> \<open>\<open>.date()\<close>: the day number of a datetime\<close>
  "date t = t div 86400000000"

definition midnight :: "int \<Rightarrow> datetime" where
  \<comment> \<open>a date compared with a timestamp column counts as that day at 00:00\<close>
  "midnight d = d * 86400000000"

record user =
  u_id :: int
  u_username :: string
  u_password :: string
  u_role :: string
  u_name :: string
  u_email :: string
  u_created_at :: datetime

record property =
  p_id :: int
  p_name :: string
  p_location :: string
  p_region :: string
  p_image :: "string option"
  p_status :: string
  p_last_audit_score :: "int option"
  p_next_audit_date :: "datetime option"
  p_created_at :: datetime

record audit =
  a_id :: int
  a_property_id :: int
  a_auditor_id :: "int option"
  a_reviewer_id :: "int option"
  a_status :: string
  a_overall_score :: "int option"
  a_cleanliness_score :: "int option"
  a_branding_score :: "int option"
  a_operational_score :: "int option"
  a_compliance_zone :: "string option"
  a_findings :: "pydict option"
  a_action_plan :: "pydict option"
  a_ai_report :: "pydict option"
  a_ai_insights :: "pydict option"
  a_submitted_at :: "datetime option"
  a_reviewed_at :: "datetime option"
  a_created_at :: datetime

record audit_item =
  i_id :: int
  i_audit_id :: int
  i_section :: string
  i_item_name :: string
  i_description :: string
  i_is_compliant :: "bool option"
  i_score :: "int option"
  i_comments :: "string option"
  i_photo_url :: "string option"
  i_ai_analysis :: "pydict option"
  i_ai_suggested_score :: "int option"
  i_created_at :: datetime

record db =
  users :: "user list"
  properties :: "property list"
  audits :: "audit list"
  audit_items :: "audit_item list"

subsection \<open>Python truthiness\<close>

text \<open>
  \<open>if x:\<close> on an optional string, list or dict is false for \<open>None\<close> and for the empty
  value. Strings, lists and association lists are all HOL lists.
\<close>

fun truthy :: "'a list option \<Rightarrow> bool" where
  "truthy None = False"
| "truthy (Some []) = False"
| "truthy (Some (x # xs)) = True"

subsection \<open>SQL three-valued logic\<close>

text \<open>
  A comparison with NULL is NULL (\<open>None\<close>); a \<open>WHERE\<close> clause and a \<open>CASE WHEN\<close> branch
  take a row only when the condition is true.
\<close>

type_synonym sqlbool = "bool option"

fun sql_eq :: "'a option \<Rightarrow> 'a \<Rightarrow> sqlbool" where
  "sql_eq None v = None"
| "sql_eq (Some x) v = Some (x = v)"

fun sql_gt :: "int option \<Rightarrow> int \<Rightarrow> sqlbool" where
  "sql_gt None v = None"
| "sql_gt (Some x) v = Some (x > v)"

fun sql_ge :: "int option \<Rightarrow> int \<Rightarrow> sqlbool" where
  "sql_ge None v = None"
| "sql_ge (Some x) v = Some (x \<ge> v)"

fun sql_le :: "int option \<Rightarrow> int \<Rightarrow> sqlbool" where
  "sql_le None v = None"
| "sql_le (Some x) v = Some (x \<le> v)"

fun sql_in :: "'a option \<Rightarrow> 'a list \<Rightarrow> sqlbool" where
  "sql_in None vs = None"
| "sql_in (Some x) vs = Some (x \<in> set vs)"

fun sql_and :: "sqlbool \<Rightarrow> sqlbool \<Rightarrow> sqlbool" where
  "sql_and (Some False) b = Some False"
| "sql_and a (Some False) = Some False"
| "sql_and (Some True) (Some True) = Some True"
| "sql_and a b = None"

definition is_true :: "sqlbool \<Rightarrow> bool" where
  "is_true c = (c = Some True)"

fun sql_case :: "(sqlbool \<times> 'a) list \<Rightarrow> 'a \<Rightarrow> 'a" where
  \<comment> \<open>\<open>case((c1, v1), (c2, v2), ..., else_=e)\<close>: the first true condition wins\<close>
  "sql_case [] e = e"
| "sql_case ((c, v) # whens) e = (if is_true c then v else sql_case whens e)"

section \<open>DatabaseQueries: properties\<close>

text \<open>
  \<open>update_property_status\<close>: look the property up by id; if it exists, derive its status
  from the score, store the score, schedule the next audit 90 days from now, and write
  the row back (\<open>UPDATE properties SET ... WHERE id = property_id\<close>). The result is the
  refreshed row, or \<open>None\<close> with the database untouched.
\<close>

definition set_property_status :: "datetime \<Rightarrow> int \<Rightarrow> property \<Rightarrow> property" where
  "set_property_status now score property =
     (let property = (if score \<ge> 80 then property\<lparr>p_status := ''green''\<rparr>
                      else if score \<ge> 60 then property\<lparr>p_status := ''amber''\<rparr>
                      else property\<lparr>p_status := ''red''\<rparr>);
          property = property\<lparr>p_last_audit_score := Some score\<rparr>;
          property = property\<lparr>p_next_audit_date := Some (now + timedelta 90)\<rparr>
      in property)"

definition update_property_status :: "datetime \<Rightarrow> db \<Rightarrow> int \<Rightarrow> int \<Rightarrow> property option \<times> db" where
  "update_property_status now db property_id score =
     (case find (\<lambda>p. p_id p = property_id) (properties db) of
        None \<Rightarrow> (None, db)
      | Some property \<Rightarrow>
          (Some (set_property_status now score property),
           db\<lparr>properties := map (\<lambda>p. if p_id p = property_id
                                       then set_property_status now score p else p)
                                 (properties db)\<rparr>))"

text \<open>
  \<open>get_properties_needing_audit\<close>: the properties whose next audit date is NULL or before
  today, ordered by next audit date ascending, NULLs first. \<open>today\<close> is a date and the
  column holds datetimes (\<open>update_property_status\<close> stores one), so a stored value is before
  today when it is before today's midnight. The order on \<open>option\<close> puts \<open>None\<close> below every
  \<open>Some\<close>, which is \<open>nullsfirst()\<close>; the sort is stable.
\<close>

definition needs_audit :: "int \<Rightarrow> property \<Rightarrow> bool" where
  "needs_audit today p =
     (case p_next_audit_date p of None \<Rightarrow> True | Some d \<Rightarrow> d < midnight today)"

definition get_properties_needing_audit :: "datetime \<Rightarrow> db \<Rightarrow> property list" where
  "get_properties_needing_audit now db =
     (let today = date now
      in sort_key p_next_audit_date (filter (needs_audit today) (properties db)))"

fun nulls_first_le :: "int option \<Rightarrow> int option \<Rightarrow> bool" where
  "nulls_first_le None y = True"
| "nulls_first_le (Some a) None = False"
| "nulls_first_le (Some a) (Some b) = (a \<le> b)"

section \<open>DatabaseQueries: users\<close>

text \<open>
  \<open>update_user(user_id, **kwargs)\<close> sets every keyword argument as an attribute of the
  user found. A keyword argument is one of the columns a caller may set, or a name that is
  no column (\<open>Unmapped\<close>): that attribute lives on the Python object only and no column
  changes.
\<close>

datatype user_kwarg =
  Username string | Password string | Role string | Name string | Email string
| Unmapped string

fun setattr_user :: "user \<Rightarrow> user_kwarg \<Rightarrow> user" where
  "setattr_user u (Username v) = u\<lparr>u_username := v\<rparr>"
| "setattr_user u (Password v) = u\<lparr>u_password := v\<rparr>"
| "setattr_user u (Role v) = u\<lparr>u_role := v\<rparr>"
| "setattr_user u (Name v) = u\<lparr>u_name := v\<rparr>"
| "setattr_user u (Email v) = u\<lparr>u_email := v\<rparr>"
| "setattr_user u (Unmapped key) = u"

definition update_user :: "db \<Rightarrow> int \<Rightarrow> user_kwarg list \<Rightarrow> user option \<times> db" where
  "update_user db user_id kwargs =
     (case find (\<lambda>u. u_id u = user_id) (users db) of
        None \<Rightarrow> (None, db)
      | Some user \<Rightarrow>
          (Some (foldl setattr_user user kwargs),
           db\<lparr>users := map (\<lambda>u. if u_id u = user_id then foldl setattr_user u kwargs else u)
                            (users db)\<rparr>))"

section \<open>DatabaseQueries: audits\<close>

text \<open>
  \<open>update_audit_scores\<close>: \<open>overall_score\<close> is always written; the three optional scores are
  written when they are not \<open>None\<close>; \<open>compliance_zone\<close>, \<open>findings\<close> and \<open>action_plan\<close> are
  written when they are truthy; then the status becomes submitted and \<open>submitted_at\<close> the
  call time.
\<close>

definition set_audit_scores ::
  "datetime \<Rightarrow> int \<Rightarrow> int option \<Rightarrow> int option \<Rightarrow> int option \<Rightarrow> string option
     \<Rightarrow> pydict option \<Rightarrow> pydict option \<Rightarrow> audit \<Rightarrow> audit" where
  "set_audit_scores now overall_score cleanliness_score branding_score operational_score
       compliance_zone findings action_plan audit =
     (let audit = audit\<lparr>a_overall_score := Some overall_score\<rparr>;
          audit = (if cleanliness_score \<noteq> None
                   then audit\<lparr>a_cleanliness_score := cleanliness_score\<rparr> else audit);
          audit = (if branding_score \<noteq> None
                   then audit\<lparr>a_branding_score := branding_score\<rparr> else audit);
          audit = (if operational_score \<noteq> None
                   then audit\<lparr>a_operational_score := operational_score\<rparr> else audit);
          audit = (if truthy compliance_zone
                   then audit\<lparr>a_compliance_zone := compliance_zone\<rparr> else audit);
          audit = (if truthy findings then audit\<lparr>a_findings := findings\<rparr> else audit);
          audit = (if truthy action_plan then audit\<lparr>a_action_plan := action_plan\<rparr> else audit);
          audit = audit\<lparr>a_status := ''submitted''\<rparr>;
          audit = audit\<lparr>a_submitted_at := Some now\<rparr>
      in audit)"

definition update_audit_scores ::
  "datetime \<Rightarrow> db \<Rightarrow> int \<Rightarrow> int \<Rightarrow> int option \<Rightarrow> int option \<Rightarrow> int option \<Rightarrow> string option
     \<Rightarrow> pydict option \<Rightarrow> pydict option \<Rightarrow> audit option \<times> db" where
  "update_audit_scores now db audit_id overall_score cleanliness_score branding_score
       operational_score compliance_zone findings action_plan =
     (let upd = set_audit_scores now overall_score cleanliness_score branding_score
                  operational_score compliance_zone findings action_plan
      in case find (\<lambda>a. a_id a = audit_id) (audits db) of
           None \<Rightarrow> (None, db)
         | Some audit \<Rightarrow>
             (Some (upd audit),
              db\<lparr>audits := map (\<lambda>a. if a_id a = audit_id then upd a else a) (audits db)\<rparr>))"

definition set_reviewer :: "datetime \<Rightarrow> int \<Rightarrow> audit \<Rightarrow> audit" where
  "set_reviewer now reviewer_id audit =
     audit\<lparr>a_reviewer_id := Some reviewer_id, a_status := ''reviewed'',
           a_reviewed_at := Some now\<rparr>"

definition assign_reviewer :: "datetime \<Rightarrow> db \<Rightarrow> int \<Rightarrow> int \<Rightarrow> audit option \<times> db" where
  "assign_reviewer now db audit_id reviewer_id =
     (case find (\<lambda>a. a_id a = audit_id) (audits db) of
        None \<Rightarrow> (None, db)
      | Some audit \<Rightarrow>
          (Some (set_reviewer now reviewer_id audit),
           db\<lparr>audits := map (\<lambda>a. if a_id a = audit_id then set_reviewer now reviewer_id a
                                   else a) (audits db)\<rparr>))"

definition set_ai_report :: "pydict \<Rightarrow> pydict \<Rightarrow> audit \<Rightarrow> audit" where
  "set_ai_report ai_report ai_insights audit =
     audit\<lparr>a_ai_report := Some ai_report, a_ai_insights := Some ai_insights\<rparr>"

definition update_audit_with_ai_report ::
  "db \<Rightarrow> int \<Rightarrow> pydict \<Rightarrow> pydict \<Rightarrow> audit option \<times> db" where
  "update_audit_with_ai_report db audit_id ai_report ai_insights =
     (case find (\<lambda>a. a_id a = audit_id) (audits db) of
        None \<Rightarrow> (None, db)
      | Some audit \<Rightarrow>
          (Some (set_ai_report ai_report ai_insights audit),
           db\<lparr>audits := map (\<lambda>a. if a_id a = audit_id
                                   then set_ai_report ai_report ai_insights a else a)
                             (audits db)\<rparr>))"

section \<open>DatabaseQueries: audit items\<close>

definition set_item_ai :: "pydict \<Rightarrow> int \<Rightarrow> int option \<Rightarrow> string option \<Rightarrow> audit_item \<Rightarrow> audit_item" where
  "set_item_ai ai_analysis ai_suggested_score score comments item =
     (let item = item\<lparr>i_ai_analysis := Some ai_analysis\<rparr>;
          item = item\<lparr>i_ai_suggested_score := Some ai_suggested_score\<rparr>;
          item = (if score \<noteq> None then item\<lparr>i_score := score\<rparr> else item);
          item = (if truthy comments then item\<lparr>i_comments := comments\<rparr> else item)
      in item)"

definition update_audit_item_with_ai ::
  "db \<Rightarrow> int \<Rightarrow> pydict \<Rightarrow> int \<Rightarrow> int option \<Rightarrow> string option \<Rightarrow> audit_item option \<times> db" where
  "update_audit_item_with_ai db item_id ai_analysis ai_suggested_score score comments =
     (case find (\<lambda>i. i_id i = item_id) (audit_items db) of
        None \<Rightarrow> (None, db)
      | Some item \<Rightarrow>
          (Some (set_item_ai ai_analysis ai_suggested_score score comments item),
           db\<lparr>audit_items :=
                 map (\<lambda>i. if i_id i = item_id
                          then set_item_ai ai_analysis ai_suggested_score score comments i
                          else i) (audit_items db)\<rparr>))"

section \<open>DatabaseQueries: risk assessment\<close>

text \<open>
  \<open>get_risk_assessment\<close>: every property, outer-joined with its latest audit (the audit
  with the greatest id among the property's audits), labelled by an SQL \<open>CASE\<close> over the
  audit's compliance zone and the days since the audit. A property without an audit gets
  NULL in every audit column. \<open>current_date\<close> is the database's day number. Rows are
  ordered by zone rank, then by days descending (NULLs first under \<open>DESC\<close>).
\<close>

record risk_row =
  r_name :: string
  r_location :: string
  r_overall_score :: "int option"
  r_compliance_zone :: "string option"
  r_days_since_audit :: "int option"
  r_risk_level :: string

definition risk_level :: "string option \<Rightarrow> int option \<Rightarrow> string" where
  "risk_level compliance_zone days_since_audit =
     sql_case
       [(sql_eq compliance_zone ''red'', ''HIGH''),
        (sql_and (sql_eq compliance_zone ''amber'') (sql_gt days_since_audit 90), ''HIGH''),
        (sql_eq compliance_zone ''amber'', ''MEDIUM''),
        (sql_gt days_since_audit 180, ''MEDIUM'')]
       ''LOW''"

definition zone_rank :: "string option \<Rightarrow> int" where
  "zone_rank compliance_zone =
     sql_case [(sql_eq compliance_zone ''red'', 1), (sql_eq compliance_zone ''amber'', 2)] 3"

definition max_audit_id :: "audit list \<Rightarrow> int \<Rightarrow> int option" where
  \<comment> \<open>\<open>max(Audit.id) ... group_by(Audit.property_id)\<close>: no group, no row\<close>
  "max_audit_id as property_id =
     (case map a_id (filter (\<lambda>a. a_property_id a = property_id) as) of
        [] \<Rightarrow> None
      | i # ids \<Rightarrow> Some (fold max ids i))"

definition latest_audits :: "audit list \<Rightarrow> property \<Rightarrow> audit option list" where
  \<comment> \<open>the two outer joins: the matching audits, or one all-NULL row\<close>
  "latest_audits as p =
     (case max_audit_id as (p_id p) of
        None \<Rightarrow> [None]
      | Some m \<Rightarrow> (case filter (\<lambda>a. a_id a = m) as of
                     [] \<Rightarrow> [None]
                   | ms \<Rightarrow> map Some ms))"

definition risk_row_of :: "int \<Rightarrow> property \<Rightarrow> audit option \<Rightarrow> risk_row" where
  "risk_row_of current_date p latest =
     (let overall_score = (case latest of None \<Rightarrow> None | Some a \<Rightarrow> a_overall_score a);
          compliance_zone = (case latest of None \<Rightarrow> None | Some a \<Rightarrow> a_compliance_zone a);
          days_since_audit = (case latest of None \<Rightarrow> None
                              | Some a \<Rightarrow> Some (current_date - date (a_created_at a)))
      in \<lparr>r_name = p_name p, r_location = p_location p, r_overall_score = overall_score,
          r_compliance_zone = compliance_zone, r_days_since_audit = days_since_audit,
          r_risk_level = risk_level compliance_zone days_since_audit\<rparr>)"

definition get_risk_assessment :: "int \<Rightarrow> db \<Rightarrow> risk_row list" where
  "get_risk_assessment current_date db =
     sort_key (\<lambda>r. (zone_rank (r_compliance_zone r), map_option uminus (r_days_since_audit r)))
       (concat (map (\<lambda>p. map (risk_row_of current_date p) (latest_audits (audits db) p))
                    (properties db)))"

section \<open>DatabaseQueries: retention\<close>

text \<open>
  \<open>cleanup_old_data\<close>: two bulk deletes and a commit. \<open>Query.delete()\<close> checks the query
  before it sends any SQL and raises \<open>InvalidRequestError\<close> when \<open>join()\<close> has been called
  on it; on a plain filtered query it deletes the rows that satisfy the criterion and
  returns their number. The first delete of \<open>cleanup_old_data\<close> is built with
  \<open>.join(Audit)\<close>, the second is not. The criterion of both is
  \<open>Audit.created_at < cutoff_date\<close>. An exception leaves the function before \<open>commit()\<close>,
  so the database stays as it was.
\<close>

datatype sa_error = InvalidRequestError

definition query_delete :: "bool \<Rightarrow> ('r \<Rightarrow> bool) \<Rightarrow> 'r list \<Rightarrow> sa_error + nat \<times> 'r list" where
  \<comment> \<open>\<open>Query.delete()\<close> on a table: \<open>joined\<close> says whether \<open>join()\<close> was called\<close>
  "query_delete joined criterion table =
     (if joined then Inl InvalidRequestError
      else Inr (length (filter criterion table), filter (\<lambda>r. \<not> criterion r) table))"

definition old_audit :: "datetime \<Rightarrow> audit \<Rightarrow> bool" where
  "old_audit cutoff_date a = (a_created_at a < cutoff_date)"

definition old_audit_item :: "datetime \<Rightarrow> audit list \<Rightarrow> audit_item \<Rightarrow> bool" where
  \<comment> \<open>the item joined (on \<open>audit_items.audit_id = audits.id\<close>) to an old audit\<close>
  "old_audit_item cutoff_date as i =
     list_ex (\<lambda>a. a_id a = i_audit_id i \<and> old_audit cutoff_date a) as"

definition delete_old_audit_items :: "datetime \<Rightarrow> db \<Rightarrow> sa_error + nat \<times> db" where
  \<comment> \<open>\<open>query(AuditItem).join(Audit).filter(Audit.created_at < cutoff_date).delete()\<close>\<close>
  "delete_old_audit_items cutoff_date db =
     (case query_delete True (old_audit_item cutoff_date (audits db)) (audit_items db) of
        Inl e \<Rightarrow> Inl e
      | Inr (n, remaining) \<Rightarrow> Inr (n, db\<lparr>audit_items := remaining\<rparr>))"

definition delete_old_audits :: "datetime \<Rightarrow> db \<Rightarrow> sa_error + nat \<times> db" where
  \<comment> \<open>\<open>query(Audit).filter(Audit.created_at < cutoff_date).delete()\<close>\<close>
  "delete_old_audits cutoff_date db =
     (case query_delete False (old_audit cutoff_date) (audits db) of
        Inl e \<Rightarrow> Inl e
      | Inr (n, remaining) \<Rightarrow> Inr (n, db\<lparr>audits := remaining\<rparr>))"

definition cleanup_old_data :: "datetime \<Rightarrow> db \<Rightarrow> int \<Rightarrow> (sa_error + nat \<times> nat) \<times> db" where
  \<comment> \<open>the exception raised or \<open>(deleted_items, deleted_audits)\<close>, with the database left\<close>
  "cleanup_old_data now db days =
     (let cutoff_date = now - timedelta days
      in case delete_old_audit_items cutoff_date db of
           Inl e \<Rightarrow> (Inl e, db)
         | Inr (old_audit_items, db1) \<Rightarrow>
             (case delete_old_audits cutoff_date db1 of
                Inl e \<Rightarrow> (Inl e, db)
              | Inr (old_audits, db2) \<Rightarrow> (Inr (old_audit_items, old_audits), db2)))"

section \<open>QueryBuilder\<close>

text \<open>
  \<open>build_audit_filter_query\<close>: each criterion that passes its guard adds a \<open>WHERE\<close>
  conjunct. The list criteria and the two dates are guarded by truthiness (a datetime is
  always truthy), the two score bounds by \<open>is not None\<close>. The rows of the query come in
  descending creation time.
\<close>

fun list_of :: "'a list option \<Rightarrow> 'a list" where
  "list_of None = []"
| "list_of (Some vs) = vs"

definition build_audit_filter_query ::
  "db \<Rightarrow> int list option \<Rightarrow> int list option \<Rightarrow> string list option \<Rightarrow> datetime option
     \<Rightarrow> datetime option \<Rightarrow> int option \<Rightarrow> int option \<Rightarrow> string list option \<Rightarrow> audit list" where
  "build_audit_filter_query db property_ids auditor_ids status_list date_from date_to
       score_min score_max compliance_zones =
     (let query = audits db;
          query = (if truthy property_ids
                   then filter (\<lambda>a. a_property_id a \<in> set (list_of property_ids)) query
                   else query);
          query = (if truthy auditor_ids
                   then filter (\<lambda>a. is_true (sql_in (a_auditor_id a) (list_of auditor_ids))) query
                   else query);
          query = (if truthy status_list
                   then filter (\<lambda>a. a_status a \<in> set (list_of status_list)) query
                   else query);
          query = (case date_from of
                     Some d \<Rightarrow> filter (\<lambda>a. a_created_at a \<ge> d) query
                   | None \<Rightarrow> query);
          query = (case date_to of
                     Some d \<Rightarrow> filter (\<lambda>a. a_created_at a \<le> d) query
                   | None \<Rightarrow> query);
          query = (case score_min of
                     Some m \<Rightarrow> filter (\<lambda>a. is_true (sql_ge (a_overall_score a) m)) query
                   | None \<Rightarrow> query);
          query = (case score_max of
                     Some m \<Rightarrow> filter (\<lambda>a. is_true (sql_le (a_overall_score a) m)) query
                   | None \<Rightarrow> query);
          query = (if truthy compliance_zones
                   then filter (\<lambda>a. is_true (sql_in (a_compliance_zone a)
                                                      (list_of compliance_zones))) query
                   else query)
      in sort_key (\<lambda>a. - a_created_at a) query)"

section \<open>AI endpoints\<close>

text \<open>
  An exception is a value: \<open>HTTPException status_code detail\<close>, pydantic's validation
  error, or any other \<open>Exception\<close> with its message. All three are subclasses of
  \<open>Exception\<close>, so \<open>except Exception as e\<close> catches each of them. An endpoint returns
  \<open>Inl\<close> of the exception it raises or \<open>Inr\<close> of its response.

  The Gemini service and Python's \<open>str\<close> on an exception are outside the repository: the
  service call is an argument that returns the dict it produced or the exception it raised,
  and \<open>str\<close> is an argument too. A dict from the service may lack any key.
\<close>

datatype exn = HTTPException nat string | ValidationError | Exception string

record photo_analysis_request =
  rq_image_base64 :: string
  rq_context :: string
  rq_audit_item_id :: "int option"

record 'f analysis_dict =
  an_compliance_status :: "string option"
  an_confidence_score :: "'f option"
  an_observations :: "string list option"
  an_suggestions :: "string list option"
  an_ai_score :: "'f option"

record 'f photo_analysis_response =
  compliance_status :: string
  confidence_score :: 'f
  observations :: "string list"
  suggestions :: "string list"
  ai_score :: "'f option"

definition PhotoAnalysisResponse :: "'f analysis_dict \<Rightarrow> exn + 'f photo_analysis_response" where
  \<comment> \<open>the model's constructor: the four required fields must be there\<close>
  "PhotoAnalysisResponse analysis =
     (case (an_compliance_status analysis, an_confidence_score analysis,
            an_observations analysis, an_suggestions analysis) of
        (Some cs, Some c, Some ob, Some su) \<Rightarrow>
          Inr \<lparr>compliance_status = cs, confidence_score = c, observations = ob,
               suggestions = su, ai_score = an_ai_score analysis\<rparr>
      | _ \<Rightarrow> Inl ValidationError)"

definition analyze_photo ::
  "(exn \<Rightarrow> string) \<Rightarrow> (string \<Rightarrow> string \<Rightarrow> int option \<Rightarrow> exn + 'f analysis_dict)
     \<Rightarrow> photo_analysis_request \<Rightarrow> exn + 'f photo_analysis_response" where
  "analyze_photo str analyze_audit_photo request =
     (case (case analyze_audit_photo (rq_image_base64 request) (rq_context request)
                  (rq_audit_item_id request) of
              Inl e \<Rightarrow> Inl e
            | Inr analysis \<Rightarrow> PhotoAnalysisResponse analysis) of
        Inl e \<Rightarrow> Inl (HTTPException 500 (''Failed to analyze photo: '' @ str e))
      | Inr response \<Rightarrow> Inr response)"

record audit_data =
  ad_property_name :: string
  ad_location :: string
  ad_audit_date :: datetime
  ad_audit_type :: string
  ad_overall_score :: "int option"
  ad_compliance_zone :: "string option"
  ad_audit_items :: "(string \<times> string \<times> int option \<times> string option) list"

record report_dict =
  rp_summary :: "string option"
  rp_key_findings :: "string list option"
  rp_recommendations :: "string list option"
  rp_compliance_overview :: "pydict option"
  rp_ai_insights :: "pydict option"

record report_generation_response =
  summary :: string
  key_findings :: "string list"
  recommendations :: "string list"
  compliance_overview :: pydict
  ai_insights :: pydict

definition ReportGenerationResponse :: "report_dict \<Rightarrow> exn + report_generation_response" where
  "ReportGenerationResponse report =
     (case (rp_summary report, rp_key_findings report, rp_recommendations report,
            rp_compliance_overview report, rp_ai_insights report) of
        (Some s, Some k, Some r, Some c, Some a) \<Rightarrow>
          Inr \<lparr>summary = s, key_findings = k, recommendations = r,
               compliance_overview = c, ai_insights = a\<rparr>
      | _ \<Rightarrow> Inl ValidationError)"

definition prepare_audit_data :: "db \<Rightarrow> audit \<Rightarrow> audit_data" where
  \<comment> \<open>\<open>audit.property\<close> and \<open>audit.audit_items\<close> are the rows that reference each other by id;
      the creation time is handed over as it is (the source renders it with \<open>isoformat\<close>)\<close>
  "prepare_audit_data db audit =
     (let property = find (\<lambda>p. p_id p = a_property_id audit) (properties db)
      in \<lparr>ad_property_name = (case property of Some p \<Rightarrow> p_name p | None \<Rightarrow> ''Unknown''),
          ad_location = (case property of Some p \<Rightarrow> p_location p | None \<Rightarrow> ''Unknown''),
          ad_audit_date = a_created_at audit,
          ad_audit_type = ''Standard Audit'',
          ad_overall_score = a_overall_score audit,
          ad_compliance_zone = a_compliance_zone audit,
          ad_audit_items =
            map (\<lambda>item. (i_section item, i_item_name item, i_score item, i_comments item))
                (filter (\<lambda>item. i_audit_id item = a_id audit) (audit_items db))\<rparr>)"

definition generate_report ::
  "(exn \<Rightarrow> string) \<Rightarrow> (audit_data \<Rightarrow> exn + report_dict) \<Rightarrow> db \<Rightarrow> int
     \<Rightarrow> exn + report_generation_response" where
  \<comment> \<open>the whole body, the 404 included, is inside \<open>try\<close>; the handler turns every exception
      into a 500\<close>
  "generate_report str generate_audit_report db audit_id =
     (case (case find (\<lambda>a. a_id a = audit_id) (audits db) of
              None \<Rightarrow> Inl (HTTPException 404 ''Audit not found'')
            | Some audit \<Rightarrow>
                (case generate_audit_report (prepare_audit_data db audit) of
                   Inl e \<Rightarrow> Inl e
                 | Inr report \<Rightarrow> ReportGenerationResponse report)) of
        Inl e \<Rightarrow> Inl (HTTPException 500 (''Failed to generate report: '' @ str e))
      | Inr response \<Rightarrow> Inr response)"

section \<open>Sample data\<close>

text \<open>A small database on which the theorems below are instantiated. Day 20000 is in 2024.\<close>

definition day :: "int \<Rightarrow> datetime" where
  "day n = n * 86400000000"

definition hotel_a :: property where
  "hotel_a = \<lparr>p_id = 1, p_name = ''Harbour'', p_location = ''Goa'', p_region = ''West'',
     p_image = None, p_status = ''green'', p_last_audit_score = Some 85,
     p_next_audit_date = Some (day 19990), p_created_at = day 18000\<rparr>"

definition hotel_b :: property where
  "hotel_b = \<lparr>p_id = 5, p_name = ''Summit'', p_location = ''Shimla'', p_region = ''North'',
     p_image = None, p_status = ''green'', p_last_audit_score = None,
     p_next_audit_date = None, p_created_at = day 19000\<rparr>"

definition hotel_c :: property where
  "hotel_c = \<lparr>p_id = 7, p_name = ''Lagoon'', p_location = ''Kochi'', p_region = ''South'',
     p_image = None, p_status = ''amber'', p_last_audit_score = Some 70,
     p_next_audit_date = Some (day 20050), p_created_at = day 19000\<rparr>"

definition audit_a :: audit where
  "audit_a = \<lparr>a_id = 1, a_property_id = 1, a_auditor_id = Some 2, a_reviewer_id = None,
     a_status = ''completed'', a_overall_score = Some 85, a_cleanliness_score = Some 90,
     a_branding_score = None, a_operational_score = None, a_compliance_zone = Some ''green'',
     a_findings = Some [(''lobby'', ''clean'')], a_action_plan = Some [(''step'', ''none'')],
     a_ai_report = None, a_ai_insights = None, a_submitted_at = None, a_reviewed_at = None,
     a_created_at = day 18800\<rparr>"

definition audit_b :: audit where
  "audit_b = \<lparr>a_id = 2, a_property_id = 5, a_auditor_id = Some 2, a_reviewer_id = Some 3,
     a_status = ''reviewed'', a_overall_score = Some 65, a_cleanliness_score = None,
     a_branding_score = None, a_operational_score = None, a_compliance_zone = Some ''amber'',
     a_findings = None, a_action_plan = None, a_ai_report = None, a_ai_insights = None,
     a_submitted_at = None, a_reviewed_at = None, a_created_at = day 19900\<rparr>"

definition audit_c :: audit where
  "audit_c = \<lparr>a_id = 3, a_property_id = 5, a_auditor_id = None, a_reviewer_id = None,
     a_status = ''scheduled'', a_overall_score = None, a_cleanliness_score = None,
     a_branding_score = None, a_operational_score = None, a_compliance_zone = None,
     a_findings = None, a_action_plan = None, a_ai_report = None, a_ai_insights = None,
     a_submitted_at = None, a_reviewed_at = None, a_created_at = day 19950\<rparr>"

definition item_a :: audit_item where
  "item_a = \<lparr>i_id = 1, i_audit_id = 1, i_section = ''Rooms'', i_item_name = ''Linen'',
     i_description = ''Bed linen'', i_is_compliant = Some True, i_score = Some 90,
     i_comments = None, i_photo_url = None, i_ai_analysis = None,
     i_ai_suggested_score = None, i_created_at = day 19800\<rparr>"

definition item_b :: audit_item where
  "item_b = \<lparr>i_id = 2, i_audit_id = 2, i_section = ''Lobby'', i_item_name = ''Signage'',
     i_description = ''Brand signage'', i_is_compliant = None, i_score = None,
     i_comments = None, i_photo_url = None, i_ai_analysis = None,
     i_ai_suggested_score = None, i_created_at = day 19900\<rparr>"

definition sample_db :: db where
  "sample_db = \<lparr>users = [], properties = [hotel_a, hotel_b, hotel_c],
     audits = [audit_a, audit_b, audit_c], audit_items = [item_a, item_b]\<rparr>"

section \<open>Lemmas on lookups and row updates\<close>

lemma find_map_upd:
  assumes "\<And>x. k (f x) = k x"
  shows "find (\<lambda>x. k x = i) (map (\<lambda>x. if k x = i then f x else x) xs)
         = map_option f (find (\<lambda>x. k x = i) xs)"
  using assms by (induction xs) auto

lemma p_id_set_property_status: "p_id (set_property_status now score p) = p_id p"
  by (simp add: set_property_status_def Let_def)

lemma is_true_sql_and: "is_true (sql_and a b) = (is_true a \<and> is_true b)"
  by (induction a b rule: sql_and.induct) (simp_all add: is_true_def)

lemma is_true_Some: "is_true (Some b) = b"
  by (simp add: is_true_def)

lemma is_true_sql_eq: "is_true (sql_eq x v) = (x = Some v)"
  by (cases x) (simp_all add: is_true_def)

lemma is_true_sql_gt: "is_true (sql_gt x v) = (\<exists>d. x = Some d \<and> d > v)"
  by (cases x) (simp_all add: is_true_def)

lemma risk_level_rules:
  "risk_level zone days =
     (if zone = Some ''red'' then ''HIGH''
      else if zone = Some ''amber'' \<and> (\<exists>d. days = Some d \<and> d > 90) then ''HIGH''
      else if zone = Some ''amber'' then ''MEDIUM''
      else if (\<exists>d. days = Some d \<and> d > 180) then ''MEDIUM''
      else ''LOW'')"
  by (auto simp add: risk_level_def is_true_sql_and is_true_sql_eq is_true_sql_gt is_true_Some)

lemma risk_rows:
  "r \<in> set (get_risk_assessment current_date db)
   \<Longrightarrow> r_risk_level r = risk_level (r_compliance_zone r) (r_days_since_audit r)"
  by (auto simp add: get_risk_assessment_def risk_row_of_def Let_def)

lemma in_get_risk_assessment:
  "p \<in> set (properties db) \<Longrightarrow> l \<in> set (latest_audits (audits db) p)
   \<Longrightarrow> risk_row_of current_date p l \<in> set (get_risk_assessment current_date db)"
  by (auto simp add: get_risk_assessment_def)

lemma a_id_set_audit_scores:
  "a_id (set_audit_scores now os cs bs ops cz f ap a) = a_id a"
  by (simp add: set_audit_scores_def Let_def)

lemma update_audit_scores_found:
  assumes "find (\<lambda>a. a_id a = audit_id) (audits db) = Some audit"
      and "update_audit_scores now db audit_id os cs bs ops cz f ap = (r, db')"
  shows "r = Some (set_audit_scores now os cs bs ops cz f ap audit)"
    and "find (\<lambda>a. a_id a = audit_id) (audits db')
         = Some (set_audit_scores now os cs bs ops cz f ap audit)"
    and "users db' = users db" and "properties db' = properties db"
    and "audit_items db' = audit_items db"
proof -
  let ?upd = "set_audit_scores now os cs bs ops cz f ap"
  have eq: "(r, db') = (Some (?upd audit),
              db\<lparr>audits := map (\<lambda>a. if a_id a = audit_id then ?upd a else a) (audits db)\<rparr>)"
    using assms by (simp add: update_audit_scores_def Let_def)
  then show "r = Some (?upd audit)" by simp
  from eq have db': "db' = db\<lparr>audits := map (\<lambda>a. if a_id a = audit_id then ?upd a else a)
                                          (audits db)\<rparr>"
    by simp
  show "find (\<lambda>a. a_id a = audit_id) (audits db') = Some (?upd audit)"
    using find_map_upd [of a_id ?upd audit_id "audits db"] assms(1)
    by (simp add: db' a_id_set_audit_scores)
  show "users db' = users db" "properties db' = properties db"
       "audit_items db' = audit_items db"
    by (simp_all add: db')
qed

section \<open>Claims\<close>

text \<open>
  C4. For every existing property and every integer score, after
  \<open>update_property_status(property_id, score)\<close> the property's status is green exactly
  when the score is at least 80, amber exactly when it is at least 60 and below 80, and
  red exactly when it is below 60; its last audit score is the score; and its next audit
  date is the call time plus 90 days. The row returned is the row stored.
\<close>

theorem update_property_status_thresholds:
  assumes "find (\<lambda>p. p_id p = property_id) (properties db) = Some property"
      and "update_property_status now db property_id score = (r, db')"
  shows "\<exists>p'. r = Some p'
           \<and> find (\<lambda>p. p_id p = property_id) (properties db') = Some p'
           \<and> (p_status p' = ''green'' \<longleftrightarrow> score \<ge> 80)
           \<and> (p_status p' = ''amber'' \<longleftrightarrow> 60 \<le> score \<and> score < 80)
           \<and> (p_status p' = ''red'' \<longleftrightarrow> score < 60)
           \<and> p_last_audit_score p' = Some score
           \<and> p_next_audit_date p' = Some (now + timedelta 90)"
proof -
  let ?p' = "set_property_status now score property"
  have r: "r = Some ?p'"
    using assms by (simp add: update_property_status_def)
  have db': "properties db' = map (\<lambda>p. if p_id p = property_id
                                          then set_property_status now score p else p)
                                    (properties db)"
    using assms by (auto simp add: update_property_status_def)
  have stored: "find (\<lambda>p. p_id p = property_id) (properties db') = Some ?p'"
    unfolding db'
    using find_map_upd [of p_id "set_property_status now score" property_id "properties db"]
          assms(1)
    by (simp add: p_id_set_property_status)
  have fields: "(p_status ?p' = ''green'' \<longleftrightarrow> score \<ge> 80)
           \<and> (p_status ?p' = ''amber'' \<longleftrightarrow> 60 \<le> score \<and> score < 80)
           \<and> (p_status ?p' = ''red'' \<longleftrightarrow> score < 60)
           \<and> p_last_audit_score ?p' = Some score
           \<and> p_next_audit_date ?p' = Some (now + timedelta 90)"
    by (simp add: set_property_status_def Let_def)
  show ?thesis using r stored fields by blast
qed

theorem update_property_status_thresholds_witness:
  "find (\<lambda>p. p_id p = 7) (properties sample_db) = Some hotel_c
   \<and> (\<exists>p'. fst (update_property_status (day 20000) sample_db 7 75) = Some p'
          \<and> find (\<lambda>p. p_id p = 7)
               (properties (snd (update_property_status (day 20000) sample_db 7 75))) = Some p'
          \<and> p_status p' = ''amber''
          \<and> p_last_audit_score p' = Some 75
          \<and> p_next_audit_date p' = Some (day 20090))"
proof -
  have h1: "find (\<lambda>p. p_id p = 7) (properties sample_db) = Some hotel_c"
    by (simp add: sample_db_def hotel_a_def hotel_b_def hotel_c_def)
  have h2: "update_property_status (day 20000) sample_db 7 75
            = (fst (update_property_status (day 20000) sample_db 7 75),
               snd (update_property_status (day 20000) sample_db 7 75))"
    by simp
  have d: "day 20000 + timedelta 90 = day 20090"
    by (simp add: day_def timedelta_def)
  from update_property_status_thresholds [OF h1 h2] d h1 show ?thesis
    by auto
qed

text \<open>
  C2. Every row of \<open>get_risk_assessment\<close> carries the risk level that the ordered rules
  give for its compliance zone and its days since the last audit, the first matching rule
  winning: a red zone is HIGH; an amber zone more than 90 days after the audit is HIGH;
  any other amber zone is MEDIUM; more than 180 days after the audit, in any zone, is
  MEDIUM; everything else is LOW. A NULL zone or a NULL number of days matches no
  comparison, so the label is defined for every row.
\<close>

theorem get_risk_assessment_rule_table:
  "\<forall>r \<in> set (get_risk_assessment current_date db).
     r_risk_level r =
       (if r_compliance_zone r = Some ''red'' then ''HIGH''
        else if r_compliance_zone r = Some ''amber''
                \<and> (\<exists>d. r_days_since_audit r = Some d \<and> d > 90) then ''HIGH''
        else if r_compliance_zone r = Some ''amber'' then ''MEDIUM''
        else if (\<exists>d. r_days_since_audit r = Some d \<and> d > 180) then ''MEDIUM''
        else ''LOW'')"
proof
  fix r assume "r \<in> set (get_risk_assessment current_date db)"
  then have "r_risk_level r = risk_level (r_compliance_zone r) (r_days_since_audit r)"
    by (rule risk_rows)
  then show "r_risk_level r =
       (if r_compliance_zone r = Some ''red'' then ''HIGH''
        else if r_compliance_zone r = Some ''amber''
                \<and> (\<exists>d. r_days_since_audit r = Some d \<and> d > 90) then ''HIGH''
        else if r_compliance_zone r = Some ''amber'' then ''MEDIUM''
        else if (\<exists>d. r_days_since_audit r = Some d \<and> d > 180) then ''MEDIUM''
        else ''LOW'')"
    by (simp only: risk_level_rules)
qed

theorem get_risk_assessment_rule_table_witness:
  "risk_row_of 20000 hotel_a (Some audit_a) \<in> set (get_risk_assessment 20000 sample_db)
   \<and> r_compliance_zone (risk_row_of 20000 hotel_a (Some audit_a)) = Some ''green''
   \<and> r_days_since_audit (risk_row_of 20000 hotel_a (Some audit_a)) = Some 1200
   \<and> r_risk_level (risk_row_of 20000 hotel_a (Some audit_a)) = ''MEDIUM''"
proof -
  let ?r = "risk_row_of 20000 hotel_a (Some audit_a)"
  have la: "latest_audits (audits sample_db) hotel_a = [Some audit_a]"
    by (simp add: latest_audits_def max_audit_id_def sample_db_def hotel_a_def
        audit_a_def audit_b_def audit_c_def)
  have mem: "?r \<in> set (get_risk_assessment 20000 sample_db)"
  proof (rule in_get_risk_assessment)
    show "hotel_a \<in> set (properties sample_db)" by (simp add: sample_db_def)
    show "Some audit_a \<in> set (latest_audits (audits sample_db) hotel_a)" by (simp add: la)
  qed
  have z: "r_compliance_zone ?r = Some ''green''"
    by (simp add: risk_row_of_def audit_a_def Let_def)
  have d: "r_days_since_audit ?r = Some 1200"
    by (simp add: risk_row_of_def audit_a_def date_def day_def Let_def)
  from get_risk_assessment_rule_table [of 20000 sample_db] mem
  have "r_risk_level ?r =
       (if r_compliance_zone ?r = Some ''red'' then ''HIGH''
        else if r_compliance_zone ?r = Some ''amber''
                \<and> (\<exists>d. r_days_since_audit ?r = Some d \<and> d > 90) then ''HIGH''
        else if r_compliance_zone ?r = Some ''amber'' then ''MEDIUM''
        else if (\<exists>d. r_days_since_audit ?r = Some d \<and> d > 180) then ''MEDIUM''
        else ''LOW'')"
    by (rule bspec)
  then have "r_risk_level ?r = ''MEDIUM''"
    unfolding z d by simp
  with mem z d show ?thesis by simp
qed

text \<open>
  C3. For every existing audit, after \<open>update_audit_scores\<close> the audit's status is
  submitted and \<open>submitted_at\<close> is the call time, whatever optional arguments were given;
  every field whose optional argument was not given (\<open>None\<close>) keeps its value, and so do
  the fields the operation has no argument for. The row returned is the row stored.
\<close>

theorem update_audit_scores_submits:
  assumes "find (\<lambda>a. a_id a = audit_id) (audits db) = Some audit"
      and "update_audit_scores now db audit_id overall_score cleanliness_score branding_score
             operational_score compliance_zone findings action_plan = (r, db')"
  shows "\<exists>a'. r = Some a'
           \<and> find (\<lambda>a. a_id a = audit_id) (audits db') = Some a'
           \<and> a_status a' = ''submitted''
           \<and> a_submitted_at a' = Some now
           \<and> (cleanliness_score = None \<longrightarrow> a_cleanliness_score a' = a_cleanliness_score audit)
           \<and> (branding_score = None \<longrightarrow> a_branding_score a' = a_branding_score audit)
           \<and> (operational_score = None
                \<longrightarrow> a_operational_score a' = a_operational_score audit)
           \<and> (compliance_zone = None \<longrightarrow> a_compliance_zone a' = a_compliance_zone audit)
           \<and> (findings = None \<longrightarrow> a_findings a' = a_findings audit)
           \<and> (action_plan = None \<longrightarrow> a_action_plan a' = a_action_plan audit)
           \<and> a_id a' = a_id audit
           \<and> a_property_id a' = a_property_id audit
           \<and> a_auditor_id a' = a_auditor_id audit
           \<and> a_reviewer_id a' = a_reviewer_id audit
           \<and> a_ai_report a' = a_ai_report audit
           \<and> a_ai_insights a' = a_ai_insights audit
           \<and> a_reviewed_at a' = a_reviewed_at audit
           \<and> a_created_at a' = a_created_at audit"
proof -
  let ?a' = "set_audit_scores now overall_score cleanliness_score branding_score
               operational_score compliance_zone findings action_plan audit"
  have r: "r = Some ?a'" and stored: "find (\<lambda>a. a_id a = audit_id) (audits db') = Some ?a'"
    using update_audit_scores_found [OF assms] by simp_all
  have fields: "a_status ?a' = ''submitted''
           \<and> a_submitted_at ?a' = Some now
           \<and> (cleanliness_score = None \<longrightarrow> a_cleanliness_score ?a' = a_cleanliness_score audit)
           \<and> (branding_score = None \<longrightarrow> a_branding_score ?a' = a_branding_score audit)
           \<and> (operational_score = None
                \<longrightarrow> a_operational_score ?a' = a_operational_score audit)
           \<and> (compliance_zone = None \<longrightarrow> a_compliance_zone ?a' = a_compliance_zone audit)
           \<and> (findings = None \<longrightarrow> a_findings ?a' = a_findings audit)
           \<and> (action_plan = None \<longrightarrow> a_action_plan ?a' = a_action_plan audit)
           \<and> a_id ?a' = a_id audit
           \<and> a_property_id ?a' = a_property_id audit
           \<and> a_auditor_id ?a' = a_auditor_id audit
           \<and> a_reviewer_id ?a' = a_reviewer_id audit
           \<and> a_ai_report ?a' = a_ai_report audit
           \<and> a_ai_insights ?a' = a_ai_insights audit
           \<and> a_reviewed_at ?a' = a_reviewed_at audit
           \<and> a_created_at ?a' = a_created_at audit"
    by (simp add: set_audit_scores_def Let_def)
  show ?thesis using r stored fields by blast
qed

theorem update_audit_scores_submits_witness:
  "find (\<lambda>a. a_id a = 2) (audits sample_db) = Some audit_b
   \<and> (\<exists>a'. fst (update_audit_scores (day 20000) sample_db 2 88 None (Some 70) None None None
                    None) = Some a'
          \<and> a_status a' = ''submitted''
          \<and> a_submitted_at a' = Some (day 20000)
          \<and> a_cleanliness_score a' = None
          \<and> a_compliance_zone a' = Some ''amber''
          \<and> a_reviewer_id a' = Some 3)"
proof -
  have h1: "find (\<lambda>a. a_id a = 2) (audits sample_db) = Some audit_b"
    by (simp add: sample_db_def audit_a_def audit_b_def)
  have h2: "update_audit_scores (day 20000) sample_db 2 88 None (Some 70) None None None None
            = (fst (update_audit_scores (day 20000) sample_db 2 88 None (Some 70) None None
                      None None),
               snd (update_audit_scores (day 20000) sample_db 2 88 None (Some 70) None None
                      None None))"
    by simp
  have b: "a_cleanliness_score audit_b = None" "a_compliance_zone audit_b = Some ''amber''"
          "a_reviewer_id audit_b = Some 3"
    by (simp_all add: audit_b_def)
  from update_audit_scores_submits [OF h1 h2] b h1 show ?thesis
    by auto
qed

text \<open>
  C10. For every existing audit, \<open>update_audit_scores\<close> called with an empty string for
  \<open>compliance_zone\<close>, or an empty dict for \<open>findings\<close> or \<open>action_plan\<close>, leaves that stored
  field as it was: these three arguments are tested for truthiness, and a truthy value is
  written. \<open>overall_score\<close> is overwritten all the same and the status and \<open>submitted_at\<close>
  are set. The three optional scores are written whenever they are not \<open>None\<close>, zero
  included.
\<close>

theorem update_audit_scores_truthiness:
  assumes "find (\<lambda>a. a_id a = audit_id) (audits db) = Some audit"
      and "update_audit_scores now db audit_id overall_score cleanliness_score branding_score
             operational_score compliance_zone findings action_plan = (r, db')"
  shows "\<exists>a'. r = Some a'
           \<and> find (\<lambda>a. a_id a = audit_id) (audits db') = Some a'
           \<and> (compliance_zone = Some [] \<longrightarrow> a_compliance_zone a' = a_compliance_zone audit)
           \<and> (findings = Some [] \<longrightarrow> a_findings a' = a_findings audit)
           \<and> (action_plan = Some [] \<longrightarrow> a_action_plan a' = a_action_plan audit)
           \<and> (truthy compliance_zone \<longrightarrow> a_compliance_zone a' = compliance_zone)
           \<and> (truthy findings \<longrightarrow> a_findings a' = findings)
           \<and> (truthy action_plan \<longrightarrow> a_action_plan a' = action_plan)
           \<and> a_overall_score a' = Some overall_score
           \<and> a_status a' = ''submitted''
           \<and> a_submitted_at a' = Some now
           \<and> (\<forall>v. cleanliness_score = Some v \<longrightarrow> a_cleanliness_score a' = Some v)
           \<and> (\<forall>v. branding_score = Some v \<longrightarrow> a_branding_score a' = Some v)
           \<and> (\<forall>v. operational_score = Some v \<longrightarrow> a_operational_score a' = Some v)"
proof -
  let ?a' = "set_audit_scores now overall_score cleanliness_score branding_score
               operational_score compliance_zone findings action_plan audit"
  have r: "r = Some ?a'" and stored: "find (\<lambda>a. a_id a = audit_id) (audits db') = Some ?a'"
    using update_audit_scores_found [OF assms] by simp_all
  have fields: "(compliance_zone = Some [] \<longrightarrow> a_compliance_zone ?a' = a_compliance_zone audit)
           \<and> (findings = Some [] \<longrightarrow> a_findings ?a' = a_findings audit)
           \<and> (action_plan = Some [] \<longrightarrow> a_action_plan ?a' = a_action_plan audit)
           \<and> (truthy compliance_zone \<longrightarrow> a_compliance_zone ?a' = compliance_zone)
           \<and> (truthy findings \<longrightarrow> a_findings ?a' = findings)
           \<and> (truthy action_plan \<longrightarrow> a_action_plan ?a' = action_plan)
           \<and> a_overall_score ?a' = Some overall_score
           \<and> a_status ?a' = ''submitted''
           \<and> a_submitted_at ?a' = Some now
           \<and> (\<forall>v. cleanliness_score = Some v \<longrightarrow> a_cleanliness_score ?a' = Some v)
           \<and> (\<forall>v. branding_score = Some v \<longrightarrow> a_branding_score ?a' = Some v)
           \<and> (\<forall>v. operational_score = Some v \<longrightarrow> a_operational_score ?a' = Some v)"
    by (simp add: set_audit_scores_def Let_def)
  show ?thesis using r stored fields by blast
qed

theorem update_audit_scores_truthiness_witness:
  "find (\<lambda>a. a_id a = 1) (audits sample_db) = Some audit_a
   \<and> (\<exists>a'. fst (update_audit_scores (day 20000) sample_db 1 70 (Some 0) None None (Some [])
                    (Some []) (Some [])) = Some a'
          \<and> a_compliance_zone a' = Some ''green''
          \<and> a_findings a' = Some [(''lobby'', ''clean'')]
          \<and> a_action_plan a' = Some [(''step'', ''none'')]
          \<and> a_overall_score a' = Some 70
          \<and> a_cleanliness_score a' = Some 0
          \<and> a_status a' = ''submitted''
          \<and> a_submitted_at a' = Some (day 20000))"
proof -
  have h1: "find (\<lambda>a. a_id a = 1) (audits sample_db) = Some audit_a"
    by (simp add: sample_db_def audit_a_def)
  have h2: "update_audit_scores (day 20000) sample_db 1 70 (Some 0) None None (Some [])
              (Some []) (Some [])
            = (fst (update_audit_scores (day 20000) sample_db 1 70 (Some 0) None None (Some [])
                      (Some []) (Some [])),
               snd (update_audit_scores (day 20000) sample_db 1 70 (Some 0) None None (Some [])
                      (Some []) (Some [])))"
    by simp
  have a: "a_compliance_zone audit_a = Some ''green''"
          "a_findings audit_a = Some [(''lobby'', ''clean'')]"
          "a_action_plan audit_a = Some [(''step'', ''none'')]"
    by (simp_all add: audit_a_def)
  from update_audit_scores_truthiness [OF h1 h2] a h1 show ?thesis
    by auto
qed

text \<open>
  C9. Every id-keyed update of \<open>DatabaseQueries\<close> (\<open>update_user\<close>,
  \<open>update_property_status\<close>, \<open>update_audit_scores\<close>, \<open>assign_reviewer\<close>,
  \<open>update_audit_with_ai_report\<close>, \<open>update_audit_item_with_ai\<close>), called with an id that no
  row of its table has, returns \<open>None\<close> and leaves the database as it was. No branch of
  these operations raises.
\<close>

theorem update_not_found_returns_none:
  "(find (\<lambda>u. u_id u = user_id) (users db) = None
      \<longrightarrow> update_user db user_id kwargs = (None, db))
   \<and> (find (\<lambda>p. p_id p = property_id) (properties db) = None
      \<longrightarrow> update_property_status now db property_id score = (None, db))
   \<and> (find (\<lambda>a. a_id a = audit_id) (audits db) = None
      \<longrightarrow> update_audit_scores now db audit_id overall_score cleanliness_score branding_score
            operational_score compliance_zone findings action_plan = (None, db)
        \<and> assign_reviewer now db audit_id reviewer_id = (None, db)
        \<and> update_audit_with_ai_report db audit_id report insights = (None, db))
   \<and> (find (\<lambda>i. i_id i = item_id) (audit_items db) = None
      \<longrightarrow> update_audit_item_with_ai db item_id analysis suggested_score item_score
            comments = (None, db))"
  by (simp add: update_user_def update_property_status_def update_audit_scores_def
      assign_reviewer_def update_audit_with_ai_report_def update_audit_item_with_ai_def)

theorem update_not_found_returns_none_witness:
  "find (\<lambda>u. u_id u = 99) (users sample_db) = None
   \<and> find (\<lambda>p. p_id p = 99) (properties sample_db) = None
   \<and> find (\<lambda>a. a_id a = 99) (audits sample_db) = None
   \<and> find (\<lambda>i. i_id i = 99) (audit_items sample_db) = None
   \<and> update_user sample_db 99 [Email ''x@y.z''] = (None, sample_db)
   \<and> update_property_status (day 20000) sample_db 99 75 = (None, sample_db)
   \<and> update_audit_scores (day 20000) sample_db 99 75 None None None None None None
       = (None, sample_db)
   \<and> assign_reviewer (day 20000) sample_db 99 3 = (None, sample_db)
   \<and> update_audit_with_ai_report sample_db 99 [] [] = (None, sample_db)
   \<and> update_audit_item_with_ai sample_db 99 [] 80 None None = (None, sample_db)"
proof -
  have u: "find (\<lambda>u. u_id u = 99) (users sample_db) = None"
    by (simp add: sample_db_def)
  have p: "find (\<lambda>p. p_id p = 99) (properties sample_db) = None"
    by (simp add: sample_db_def hotel_a_def hotel_b_def hotel_c_def)
  have a: "find (\<lambda>a. a_id a = 99) (audits sample_db) = None"
    by (simp add: sample_db_def audit_a_def audit_b_def audit_c_def)
  have i: "find (\<lambda>i. i_id i = 99) (audit_items sample_db) = None"
    by (simp add: sample_db_def item_a_def item_b_def)
  from u p a i
    update_not_found_returns_none [of 99 sample_db "[Email ''x@y.z'']" 99 "day 20000" 75 99
      75 None None None None None None 3 "[]" "[]" 99 "[]" 80 None None]
  show ?thesis by simp
qed

lemma before_midnight: "d < midnight t \<longleftrightarrow> date d < t"
  unfolding midnight_def date_def by linarith

lemma nulls_first_le_iff: "nulls_first_le x y \<longleftrightarrow> x \<le> y"
  by (cases x; cases y) simp_all

lemma needs_audit_iff:
  "needs_audit today p \<longleftrightarrow>
     p_next_audit_date p = None \<or> (\<exists>d. p_next_audit_date p = Some d \<and> date d < today)"
  by (cases "p_next_audit_date p") (simp_all add: needs_audit_def before_midnight)

text \<open>
  C7. \<open>get_properties_needing_audit\<close> returns exactly the properties whose next audit date
  is NULL or on a day strictly before today, each as often as the table holds it, in
  ascending order of next audit date with the NULLs first.
\<close>

theorem get_properties_needing_audit_exact_sorted:
  "set (get_properties_needing_audit now db)
     = {p \<in> set (properties db).
          p_next_audit_date p = None
          \<or> (\<exists>d. p_next_audit_date p = Some d \<and> date d < date now)}
   \<and> mset (get_properties_needing_audit now db)
     = {#p \<in># mset (properties db).
          p_next_audit_date p = None
          \<or> (\<exists>d. p_next_audit_date p = Some d \<and> date d < date now)#}
   \<and> sorted_wrt (\<lambda>p q. nulls_first_le (p_next_audit_date p) (p_next_audit_date q))
        (get_properties_needing_audit now db)"
proof -
  let ?res = "get_properties_needing_audit now db"
  have m: "mset ?res = {#p \<in># mset (properties db).
          p_next_audit_date p = None
          \<or> (\<exists>d. p_next_audit_date p = Some d \<and> date d < date now)#}"
    by (simp add: get_properties_needing_audit_def Let_def needs_audit_iff)
  have s: "set ?res = {p \<in> set (properties db).
          p_next_audit_date p = None
          \<or> (\<exists>d. p_next_audit_date p = Some d \<and> date d < date now)}"
    by (simp add: get_properties_needing_audit_def Let_def needs_audit_iff)
  have "sorted (map p_next_audit_date ?res)"
    by (simp add: get_properties_needing_audit_def Let_def)
  then have o: "sorted_wrt (\<lambda>p q. nulls_first_le (p_next_audit_date p) (p_next_audit_date q))
                  ?res"
    by (simp add: sorted_map nulls_first_le_iff)
  from s m o show ?thesis by blast
qed

theorem get_properties_needing_audit_exact_sorted_witness:
  "hotel_b \<in> set (get_properties_needing_audit (day 20000) sample_db)
   \<and> hotel_a \<in> set (get_properties_needing_audit (day 20000) sample_db)
   \<and> hotel_c \<notin> set (get_properties_needing_audit (day 20000) sample_db)
   \<and> sorted_wrt (\<lambda>p q. nulls_first_le (p_next_audit_date p) (p_next_audit_date q))
        (get_properties_needing_audit (day 20000) sample_db)"
proof -
  have d: "date (day 19990) < date (day 20000)" "\<not> date (day 20050) < date (day 20000)"
    by (simp_all add: date_def day_def)
  have a: "p_next_audit_date hotel_a = Some (day 19990)"
    and b: "p_next_audit_date hotel_b = None"
    and c: "p_next_audit_date hotel_c = Some (day 20050)"
    by (simp_all add: hotel_a_def hotel_b_def hotel_c_def)
  have mem: "hotel_a \<in> set (properties sample_db)" "hotel_b \<in> set (properties sample_db)"
    by (simp_all add: sample_db_def)
  from get_properties_needing_audit_exact_sorted [of "day 20000" sample_db] a b c d mem
  show ?thesis by simp
qed

text \<open>
  C8. Whenever the call to the AI service raises, \<open>analyze_photo\<close> raises an
  \<open>HTTPException\<close> with status 500 whose detail is \<open>Failed to analyze photo: \<close> followed
  by \<open>str\<close> of the exception caught; it returns no analysis object.
\<close>

theorem analyze_photo_failure_is_500:
  assumes "analyze_audit_photo (rq_image_base64 request) (rq_context request)
             (rq_audit_item_id request) = Inl e"
  shows "analyze_photo str analyze_audit_photo request
           = Inl (HTTPException 500 (''Failed to analyze photo: '' @ str e))
         \<and> (\<forall>response. analyze_photo str analyze_audit_photo request \<noteq> Inr response)"
  using assms by (simp add: analyze_photo_def)

theorem analyze_photo_failure_is_500_witness:
  "analyze_photo (\<lambda>e. case e of Exception m \<Rightarrow> m | _ \<Rightarrow> [])
     (\<lambda>image ctxt item. Inl (Exception ''quota exceeded'')
        :: exn + int analysis_dict)
     \<lparr>rq_image_base64 = ''aGVsbG8='', rq_context = ''lobby'', rq_audit_item_id = Some 1\<rparr>
   = Inl (HTTPException 500 ''Failed to analyze photo: quota exceeded'')"
proof -
  have h: "(\<lambda>image ctxt item. Inl (Exception ''quota exceeded'') :: exn + int analysis_dict)
             (rq_image_base64 \<lparr>rq_image_base64 = ''aGVsbG8='', rq_context = ''lobby'',
                               rq_audit_item_id = Some 1\<rparr>)
             (rq_context \<lparr>rq_image_base64 = ''aGVsbG8='', rq_context = ''lobby'',
                          rq_audit_item_id = Some 1\<rparr>)
             (rq_audit_item_id \<lparr>rq_image_base64 = ''aGVsbG8='', rq_context = ''lobby'',
                                rq_audit_item_id = Some 1\<rparr>)
           = Inl (Exception ''quota exceeded'')"
    by simp
  from analyze_photo_failure_is_500 [OF h, of "\<lambda>e. case e of Exception m \<Rightarrow> m | _ \<Rightarrow> []"]
  show ?thesis by simp
qed

text \<open>
  C1. \<open>generate_report\<close> with an audit id that no audit has: the source raises the 404
  inside its \<open>try\<close> block, and the handler \<open>except Exception\<close> catches it and raises a 500
  in its place. The client sees status 500, with the 404 only inside the detail text.
\<close>

theorem generate_report_unknown_audit_is_500:
  "generate_report str generate_audit_report sample_db 99
     = Inl (HTTPException 500
              (''Failed to generate report: '' @ str (HTTPException 404 ''Audit not found'')))"
  by (simp add: generate_report_def sample_db_def audit_a_def audit_b_def audit_c_def)

lemma if_filter: "(if c then filter P q else q) = filter (\<lambda>a. c \<longrightarrow> P a) q"
  by simp

lemma case_filter:
  "(case v of Some d \<Rightarrow> filter (P d) q | None \<Rightarrow> q) = filter (\<lambda>a. \<forall>d. v = Some d \<longrightarrow> P d a) q"
  by (cases v) simp_all

lemma is_true_sql_in: "is_true (sql_in x vs) = (\<exists>v. x = Some v \<and> v \<in> set vs)"
  by (cases x) (simp_all add: is_true_def)

lemma is_true_sql_ge: "is_true (sql_ge x m) = (\<exists>s. x = Some s \<and> s \<ge> m)"
  by (cases x) (simp_all add: is_true_def)

lemma is_true_sql_le: "is_true (sql_le x m) = (\<exists>s. x = Some s \<and> s \<le> m)"
  by (cases x) (simp_all add: is_true_def)

lemma build_audit_filter_query_eq:
  "build_audit_filter_query db property_ids auditor_ids status_list date_from date_to
       score_min score_max compliance_zones
   = sort_key (\<lambda>a. - a_created_at a)
       (filter (\<lambda>a.
          (truthy property_ids \<longrightarrow> a_property_id a \<in> set (list_of property_ids))
          \<and> (truthy auditor_ids
               \<longrightarrow> (\<exists>v. a_auditor_id a = Some v \<and> v \<in> set (list_of auditor_ids)))
          \<and> (truthy status_list \<longrightarrow> a_status a \<in> set (list_of status_list))
          \<and> (\<forall>d. date_from = Some d \<longrightarrow> a_created_at a \<ge> d)
          \<and> (\<forall>d. date_to = Some d \<longrightarrow> a_created_at a \<le> d)
          \<and> (\<forall>m. score_min = Some m \<longrightarrow> (\<exists>s. a_overall_score a = Some s \<and> s \<ge> m))
          \<and> (\<forall>m. score_max = Some m \<longrightarrow> (\<exists>s. a_overall_score a = Some s \<and> s \<le> m))
          \<and> (truthy compliance_zones
               \<longrightarrow> (\<exists>z. a_compliance_zone a = Some z \<and> z \<in> set (list_of compliance_zones))))
        (audits db))"
  unfolding build_audit_filter_query_def Let_def if_filter case_filter filter_filter
    is_true_sql_in is_true_sql_ge is_true_sql_le conj_assoc
  by (rule refl)

lemma sorted_desc_sort_key:
  "sorted_wrt (\<lambda>x y. f x \<ge> f y) (sort_key (\<lambda>a. - f a) xs)" for f :: "'a \<Rightarrow> int"
proof -
  have "sorted (map (\<lambda>a. - f a) (sort_key (\<lambda>a. - f a) xs))"
    by (rule sorted_sort_key)
  then show ?thesis by (simp add: sorted_map)
qed

lemma old_audit_fun: "old_audit cutoff_date = (\<lambda>a. a_created_at a < cutoff_date)"
  by (rule ext) (simp add: old_audit_def)

lemma delete_old_audits_deletes:
  "delete_old_audits cutoff_date db
   = Inr (length (filter (\<lambda>a. a_created_at a < cutoff_date) (audits db)),
          db\<lparr>audits := filter (\<lambda>a. \<not> a_created_at a < cutoff_date) (audits db)\<rparr>)"
  by (simp add: delete_old_audits_def query_delete_def old_audit_fun)

lemma delete_old_audit_items_raises:
  "delete_old_audit_items cutoff_date db = Inl InvalidRequestError"
  by (simp add: delete_old_audit_items_def query_delete_def)

lemma cleanup_old_data_raises:
  "cleanup_old_data now db days = (Inl InvalidRequestError, db)"
  by (simp add: cleanup_old_data_def Let_def delete_old_audit_items_raises)

text \<open>
  C5 (as amended). \<open>build_audit_filter_query\<close> returns the audits that satisfy the
  conjunction of the criteria that pass their guard, each as often as the table holds it,
  in descending order of creation time. A list criterion passes its guard when it is a
  non-empty list: \<open>None\<close> and the empty list both filter nothing. A date or score bound
  passes when it is not \<open>None\<close>. Membership in a list criterion is an OR over its values,
  and a NULL column satisfies no criterion on it. With no filters the result holds every
  audit; with \<open>property_ids = [5]\<close> and \<open>status_list = [completed, reviewed]\<close> it holds
  exactly the audits of property 5 in one of those two statuses.
\<close>

theorem build_audit_filter_query_conjunction:
  "mset (build_audit_filter_query db property_ids auditor_ids status_list date_from date_to
           score_min score_max compliance_zones)
     = {#a \<in># mset (audits db).
          (truthy property_ids \<longrightarrow> a_property_id a \<in> set (list_of property_ids))
          \<and> (truthy auditor_ids
               \<longrightarrow> (\<exists>v. a_auditor_id a = Some v \<and> v \<in> set (list_of auditor_ids)))
          \<and> (truthy status_list \<longrightarrow> a_status a \<in> set (list_of status_list))
          \<and> (\<forall>d. date_from = Some d \<longrightarrow> a_created_at a \<ge> d)
          \<and> (\<forall>d. date_to = Some d \<longrightarrow> a_created_at a \<le> d)
          \<and> (\<forall>m. score_min = Some m \<longrightarrow> (\<exists>s. a_overall_score a = Some s \<and> s \<ge> m))
          \<and> (\<forall>m. score_max = Some m \<longrightarrow> (\<exists>s. a_overall_score a = Some s \<and> s \<le> m))
          \<and> (truthy compliance_zones
               \<longrightarrow> (\<exists>z. a_compliance_zone a = Some z
                        \<and> z \<in> set (list_of compliance_zones)))#}
   \<and> sorted_wrt (\<lambda>x y. a_created_at x \<ge> a_created_at y)
        (build_audit_filter_query db property_ids auditor_ids status_list date_from date_to
           score_min score_max compliance_zones)
   \<and> mset (build_audit_filter_query db None None None None None None None None)
     = mset (audits db)
   \<and> set (build_audit_filter_query db (Some [5]) None (Some [''completed'', ''reviewed''])
            None None None None None)
     = {a \<in> set (audits db).
          a_property_id a = 5 \<and> (a_status a = ''completed'' \<or> a_status a = ''reviewed'')}"
proof -
  have 1: "mset (build_audit_filter_query db property_ids auditor_ids status_list date_from
                   date_to score_min score_max compliance_zones)
     = {#a \<in># mset (audits db).
          (truthy property_ids \<longrightarrow> a_property_id a \<in> set (list_of property_ids))
          \<and> (truthy auditor_ids
               \<longrightarrow> (\<exists>v. a_auditor_id a = Some v \<and> v \<in> set (list_of auditor_ids)))
          \<and> (truthy status_list \<longrightarrow> a_status a \<in> set (list_of status_list))
          \<and> (\<forall>d. date_from = Some d \<longrightarrow> a_created_at a \<ge> d)
          \<and> (\<forall>d. date_to = Some d \<longrightarrow> a_created_at a \<le> d)
          \<and> (\<forall>m. score_min = Some m \<longrightarrow> (\<exists>s. a_overall_score a = Some s \<and> s \<ge> m))
          \<and> (\<forall>m. score_max = Some m \<longrightarrow> (\<exists>s. a_overall_score a = Some s \<and> s \<le> m))
          \<and> (truthy compliance_zones
               \<longrightarrow> (\<exists>z. a_compliance_zone a = Some z
                        \<and> z \<in> set (list_of compliance_zones)))#}"
    unfolding build_audit_filter_query_eq by (simp only: mset_sort mset_filter)
  have 2: "sorted_wrt (\<lambda>x y. a_created_at x \<ge> a_created_at y)
        (build_audit_filter_query db property_ids auditor_ids status_list date_from date_to
           score_min score_max compliance_zones)"
    unfolding build_audit_filter_query_eq by (rule sorted_desc_sort_key)
  have 3: "mset (build_audit_filter_query db None None None None None None None None)
     = mset (audits db)"
    unfolding build_audit_filter_query_eq by simp
  have 4: "set (build_audit_filter_query db (Some [5]) None (Some [''completed'', ''reviewed''])
            None None None None None)
     = {a \<in> set (audits db).
          a_property_id a = 5 \<and> (a_status a = ''completed'' \<or> a_status a = ''reviewed'')}"
    unfolding build_audit_filter_query_eq by auto
  from 1 2 3 4 show ?thesis by blast
qed

theorem build_audit_filter_query_conjunction_witness:
  "truthy (Some [5::int]) \<and> truthy (Some [''completed'', ''reviewed''])
   \<and> audit_b \<in> set (build_audit_filter_query sample_db (Some [5]) None
                       (Some [''completed'', ''reviewed'']) None None None None None)
   \<and> audit_a \<notin> set (build_audit_filter_query sample_db (Some [5]) None
                       (Some [''completed'', ''reviewed'']) None None None None None)
   \<and> audit_c \<notin> set (build_audit_filter_query sample_db (Some [5]) None
                       (Some [''completed'', ''reviewed'']) None None None None None)"
proof -
  have a: "a_property_id audit_a = 1" "a_property_id audit_b = 5" "a_property_id audit_c = 5"
          "a_status audit_b = ''reviewed''" "a_status audit_c = ''scheduled''"
    by (simp_all add: audit_a_def audit_b_def audit_c_def)
  have mem: "audit_b \<in> set (audits sample_db)"
    by (simp add: sample_db_def)
  have g: "truthy (Some [5::int])" "truthy (Some [''completed'', ''reviewed''])"
    by simp_all
  from build_audit_filter_query_conjunction [of sample_db "Some [5]" None
         "Some [''completed'', ''reviewed'']" None None None None None] a mem g
  show ?thesis by simp
qed

text \<open>
  C5 as stated fails on a list criterion that is supplied but empty: the guard
  \<open>if property_ids:\<close> is false for \<open>[]\<close>, no filter is added, and the result holds audits
  whose property id is not among the (no) values supplied.
\<close>

theorem build_audit_filter_query_empty_list_counterexample:
  "audit_a \<in> set (build_audit_filter_query sample_db (Some []) None None None None None None
                     None)
   \<and> a_property_id audit_a \<notin> set []"
  unfolding build_audit_filter_query_eq by (simp add: sample_db_def)

text \<open>
  C6. \<open>cleanup_old_data(days)\<close> is meant to delete the audit items and the audits older
  than the call time minus \<open>days\<close>, items first, and to return the two counts. The code
  does not get there: its first delete is called on a query built with \<open>join()\<close>, which
  \<open>Query.delete()\<close> refuses with \<open>InvalidRequestError\<close>. The call raises, nothing is
  deleted and no counts are returned. On the sample database with the default 1095 days,
  \<open>audit_a\<close> is older than the cutoff, and it and its item are still there after the call.
\<close>

theorem cleanup_old_data_raises_before_deleting:
  "cleanup_old_data (day 20000) sample_db 1095 = (Inl InvalidRequestError, sample_db)
   \<and> audit_a \<in> set (audits sample_db)
   \<and> a_created_at audit_a < day 20000 - timedelta 1095
   \<and> item_a \<in> set (audit_items sample_db)
   \<and> i_audit_id item_a = a_id audit_a"
  by (simp add: cleanup_old_data_raises sample_db_def audit_a_def item_a_def day_def
      timedelta_def)

end
